theory Spec2Isabelle
  imports Main "HOL-Library.Word"
begin

section \<open>Errors and formatted messages\<close>

text \<open>
  A Go \<^verbatim>\<open>error\<close> is either built by \<^verbatim>\<open>fmt.Errorf\<close> (kept as its format string and
  its arguments, so that no rendering has to be modelled) or comes from a library call
  (os, gzip, rlp, exec, node, ethclient) and is kept by its message.
\<close>

datatype error = Errorf string "fmtarg list" | External string
and fmtarg = ArgInt int | ArgU64 "64 word" | ArgStr string | ArgErr error

section \<open>The harness package: log levels\<close>

text \<open>
  \<^verbatim>\<open>type LogLevel int\<close> with the constants \<^verbatim>\<open>None .. Trace\<close> numbered by
  \<^verbatim>\<open>iota\<close>.
\<close>

type_synonym LogLevel = int

definition None_level :: LogLevel where "None_level = 0"
definition Err :: LogLevel where "Err = 1"
definition Warn :: LogLevel where "Warn = 2"
definition Info :: LogLevel where "Info = 3"
definition Debug :: LogLevel where "Debug = 4"
definition Trace :: LogLevel where "Trace = 5"

definition ParseLogLevel :: "string \<Rightarrow> error + LogLevel" where
  "ParseLogLevel s =
     (if s = ''none'' then Inr None_level
      else if s = ''error'' then Inr Err
      else if s = ''warn'' then Inr Warn
      else if s = ''info'' then Inr Info
      else if s = ''debug'' then Inr Debug
      else if s = ''Trace'' then Inr Trace
      else Inl (Errorf ''unknown log level: %s'' [ArgStr s]))"

section \<open>The chain fixture loader\<close>

text \<open>
  The loader is the same in both in-process verifiers (\<^verbatim>\<open>loadChain\<close>,
  \<^verbatim>\<open>loadGenesis\<close>, \<^verbatim>\<open>blocksFromFile\<close>). What it takes from go-ethereum and the Go
  library is kept to what the loader observes: a block's number and hash, a genesis
  description with its (possibly absent) chain configuration.
\<close>

type_synonym byte = "8 word"

record Block =
  NumberU64 :: "64 word"
  Hash :: "256 word"

record ChainConfig =
  ChainID :: "int option"

record Genesis =
  Config :: "ChainConfig option"
  Difficulty :: int
  Alloc :: "(160 word \<times> int) list"

text \<open>
  An \<^verbatim>\<open>io.Reader\<close>: the bytes it yields, then \<^verbatim>\<open>io.EOF\<close> or a read error.
\<close>

datatype reader = Reader (content: "byte list") (fault: "error option")

text \<open>
  The library calls of the loader. \<open>rlpDecodeAll r\<close> lists the results of the successive
  \<^verbatim>\<open>stream.Decode(&b)\<close> calls on \<^verbatim>\<open>rlp.NewStream(r, 0)\<close>, a decoded block or a decoding
  error, up to the \<^verbatim>\<open>io.EOF\<close> that ends the stream.
\<close>

record lib =
  osOpen :: "string \<Rightarrow> error + reader"
  osReadFile :: "string \<Rightarrow> error + byte list"
  jsonUnmarshal :: "byte list \<Rightarrow> error + Genesis"
  ToBlock :: "Genesis \<Rightarrow> Block"
  gzipNewReader :: "reader \<Rightarrow> error + reader"
  rlpDecodeAll :: "reader \<Rightarrow> (error + Block) list"

text \<open>\<^verbatim>\<open>strings.HasSuffix\<close>: \<^verbatim>\<open>len(s) >= len(suffix) && s[len(s)-len(suffix):] == suffix\<close>.\<close>

definition HasSuffix :: "string \<Rightarrow> string \<Rightarrow> bool" where
  "HasSuffix s suffix =
     (length s \<ge> length suffix \<and> drop (length s - length suffix) s = suffix)"

text \<open>
  The loop of \<^verbatim>\<open>blocksFromFile\<close>. The counter \<^verbatim>\<open>i\<close> is a Go \<^verbatim>\<open>int\<close>, 64 bits wide
  on the platforms the repository names (linux/amd64): \<^verbatim>\<open>uint64(i+1)\<close> keeps the bits of
  \<^verbatim>\<open>i+1\<close>, and \<^verbatim>\<open>%d\<close> prints \<^verbatim>\<open>i\<close> signed.
\<close>

fun blocksFromFile_loop ::
  "64 word \<Rightarrow> (error + Block) list \<Rightarrow> Block list \<Rightarrow> error + Block list" where
  "blocksFromFile_loop i [] blocks = Inr blocks"
| "blocksFromFile_loop i (Inl err # rest) blocks =
     Inl (Errorf ''at block index %d: %v'' [ArgInt (sint i), ArgErr err])"
| "blocksFromFile_loop i (Inr b # rest) blocks =
     (if NumberU64 b \<noteq> i + 1
      then Inl (Errorf ''block at index %d has wrong number %d''
                  [ArgInt (sint i), ArgU64 (NumberU64 b)])
      else blocksFromFile_loop (i + 1) rest (blocks @ [b]))"

definition blocksFromFile :: "lib \<Rightarrow> string \<Rightarrow> Block \<Rightarrow> error + Block list" where
  "blocksFromFile L chainfile gblock =
     (case osOpen L chainfile of
        Inl err \<Rightarrow> Inl err
      | Inr fh \<Rightarrow>
          (case (if HasSuffix chainfile ''.gz'' then gzipNewReader L fh else Inr fh) of
             Inl err \<Rightarrow> Inl err
           | Inr reader \<Rightarrow> blocksFromFile_loop 0 (rlpDecodeAll L reader) [gblock]))"

definition loadGenesis :: "lib \<Rightarrow> string \<Rightarrow> error + Genesis" where
  "loadGenesis L genesisFile =
     (case osReadFile L genesisFile of
        Inl err \<Rightarrow> Inl err
      | Inr chainConfig \<Rightarrow>
          (case jsonUnmarshal L chainConfig of
             Inl err \<Rightarrow> Inl err
           | Inr gen \<Rightarrow> Inr gen))"

record Chain =
  genesis :: Genesis
  blocks :: "Block list"
  chainConfig :: "ChainConfig option"

definition loadChain :: "lib \<Rightarrow> string \<Rightarrow> string \<Rightarrow> error + Chain" where
  "loadChain L chainfile genesisFile =
     (case loadGenesis L genesisFile of
        Inl err \<Rightarrow> Inl err
      | Inr gen \<Rightarrow>
          (case blocksFromFile L chainfile (ToBlock L gen) of
             Inl err \<Rightarrow> Inl err
           | Inr blks \<Rightarrow>
               Inr \<lparr>genesis = gen, blocks = blks, chainConfig = Config gen\<rparr>))"

text \<open>
  The decoding results the loop of \<^verbatim>\<open>blocksFromFile\<close> reads for a chain file: the file
  opened, unpacked when its name ends in \<^verbatim>\<open>.gz\<close>, and handed to the RLP stream.
\<close>

definition chainStream :: "lib \<Rightarrow> string \<Rightarrow> error + (error + Block) list" where
  "chainStream L chainfile =
     (case osOpen L chainfile of
        Inl err \<Rightarrow> Inl err
      | Inr fh \<Rightarrow>
          (case (if HasSuffix chainfile ''.gz'' then gzipNewReader L fh else Inr fh) of
             Inl err \<Rightarrow> Inl err
           | Inr reader \<Rightarrow> Inr (rlpDecodeAll L reader)))"

subsection \<open>A stand-in library for concrete runs\<close>

text \<open>
  The concrete evaluations below need a library to run against. In this stand-in a stream
  holds one block per byte (the byte is the block's number, \<open>0xff\<close> does not decode) and a
  packed file is its contents behind the two gzip magic bytes; like \<^verbatim>\<open>gzip.NewReader\<close>,
  the unpacking refuses contents that do not start with them.
\<close>

definition fixture_block :: "byte \<Rightarrow> Block" where
  "fixture_block n = \<lparr>NumberU64 = of_nat (unat n), Hash = of_nat (unat n)\<rparr>"

definition fixture_genesis :: Genesis where
  "fixture_genesis =
     \<lparr>Config = Some \<lparr>ChainID = Some 1337\<rparr>, Difficulty = 1234, Alloc = [(0xaa, 0)]\<rparr>"

definition fixture_lib :: lib where
  "fixture_lib =
     \<lparr>osOpen = (\<lambda>name.
        if name = ''chain.rlp'' then Inr (Reader [1, 2] None)
        else if name = ''chain.rlp.gz'' then Inr (Reader [0x1f, 0x8b, 1, 2] None)
        else if name = ''plain.gz'' then Inr (Reader [1, 2] None)
        else if name = ''gap.rlp'' then Inr (Reader [1, 3, 2] None)
        else if name = ''torn.rlp'' then Inr (Reader [1, 0xff, 3] None)
        else Inl (External ''open: no such file or directory'')),
      osReadFile = (\<lambda>name.
        if name = ''genesis.json'' then Inr [0x7b, 0x7d]
        else Inl (External ''open: no such file or directory'')),
      jsonUnmarshal = (\<lambda>bs.
        if bs = [0x7b, 0x7d] then Inr fixture_genesis
        else Inl (External ''unexpected end of JSON input'')),
      ToBlock = (\<lambda>g. \<lparr>NumberU64 = 0, Hash = word_of_int (Difficulty g)\<rparr>),
      gzipNewReader = (\<lambda>r.
        if take 2 (content r) = [0x1f, 0x8b] then Inr (Reader (drop 2 (content r)) (fault r))
        else Inl (External ''gzip: invalid header'')),
      rlpDecodeAll = (\<lambda>r.
        map (\<lambda>b. if b = 0xff then Inl (External ''rlp: expected List'')
                 else Inr (fixture_block b)) (content r)
        @ (case fault r of None \<Rightarrow> [] | Some err \<Rightarrow> [Inl err]))\<rparr>"

section \<open>Runs, events and outcomes\<close>

text \<open>
  What a run does to the outside is kept as a list of events, each a call with what it
  returned: lines printed, commands executed, RPC requests and their replies. A Go function
  that can dereference a nil pointer returns an \<open>outcome\<close>: the panic, or its ordinary
  return value.
\<close>

datatype event =
    Println string
  | Fprintf_Stderr string "fmtarg list"
  | LogError string "fmtarg list"
  | Exec string "string list"
  | Spawn string "string list"
  | StackClose
  | CallRunning bool
  | CallAttach "error option"
  | ConsoleAttach "error option"
  | ConsoleSession
  | Dial string "error option"
  | RpcBlockNumber "error + 64 word"
  | RpcBlockByNumber int "error + Block"


datatype status = Exited nat | Crashed string

text \<open>\<^verbatim>\<open>fmt.Sprintf("%d", i)\<close>: the decimal digits of an integer.\<close>

fun digits :: "nat \<Rightarrow> string" where
  "digits n =
     (if n < 10 then [''0123456789'' ! n]
      else digits (n div 10) @ [''0123456789'' ! (n mod 10)])"

declare digits.simps [simp del]

definition itoa :: "int \<Rightarrow> string" where
  "itoa i = (if i < 0 then ''-'' @ digits (nat (- i)) else digits (nat i))"

section \<open>The harness package: the geth client\<close>

definition HOST :: string where "HOST = ''localhost''"
definition PORT :: string where "PORT = ''8545''"



record ClientArgs =
  FakePow :: bool
  LogLevel :: LogLevel
  DataDir :: string
  GenesisPath :: string
  ChainPath :: string

text \<open>
  An \<^verbatim>\<open>exec.Cmd\<close>: the program, its arguments, whether it writes to the caller's
  standard streams, and its \<^verbatim>\<open>Process\<close>, which is nil until \<^verbatim>\<open>Start\<close> has succeeded.
\<close>

record Cmd =
  Path :: string
  Args :: "string list"
  Inherit :: bool
  Process :: "nat option"

text \<open>
  \<^verbatim>\<open>gethClient\<close>: \<^verbatim>\<open>cmd\<close> is a pointer, nil until \<^verbatim>\<open>Start\<close> assigns it. The
  verifier always passes an argument record, so \<^verbatim>\<open>args\<close> is kept as a value.
\<close>

record gethClient =
  cmd :: "Cmd option"
  path :: string
  args :: ClientArgs

text \<open>
  The machine the harness runs on: a step counter that advances with every call whose
  answer can change over time, the working directory, the directories that exist, the
  child processes that run, and the events so far. The file system does not fail by itself.
\<close>

record world =
  clock :: nat
  cwd :: string
  tree :: "string list"
  running :: "nat list"
  trace :: "event list"

text \<open>
  The answers of the outside world to the harness. \<open>runProgram\<close> is \<^verbatim>\<open>cmd.Run()\<close>,
  \<open>startProgram\<close> is \<^verbatim>\<open>cmd.Start()\<close> with the new process's id, \<open>DialContext\<close> is
  \<^verbatim>\<open>ethclient.DialContext\<close> (for an HTTP address it only builds the client, so its result
  depends on the address alone), \<open>BlockNumber\<close> the reply to an
  \<^verbatim>\<open>eth_blockNumber\<close> request and \<open>ctxDone\<close> whether the context's \<^verbatim>\<open>Done\<close> channel
  is closed, the last two at a given step.
\<close>

record harness_env =
  runProgram :: "nat \<Rightarrow> string \<Rightarrow> string list \<Rightarrow> error option"
  startProgram :: "nat \<Rightarrow> string \<Rightarrow> string list \<Rightarrow> error + nat"
  osGetwd :: "error option"
  DialContext :: "string \<Rightarrow> error option"
  BlockNumber :: "nat \<Rightarrow> error + 64 word"
  ctxDone :: "nat \<Rightarrow> bool"

definition emit :: "event list \<Rightarrow> world \<Rightarrow> world" where
  "emit es w = w\<lparr>trace := trace w @ es\<rparr>"

definition tick :: "world \<Rightarrow> world" where
  "tick w = w\<lparr>clock := Suc (clock w)\<rparr>"

text \<open>\<open>under p q\<close>: \<open>q\<close> is the directory \<open>p\<close> or lies below it.\<close>

definition under :: "string \<Rightarrow> string \<Rightarrow> bool" where
  "under p q = (q = p \<or> take (length p + 1) q = p @ ''/'')"

definition RemoveAll :: "world \<Rightarrow> string \<Rightarrow> error option \<times> world" where
  "RemoveAll w p = (None, w\<lparr>tree := filter (\<lambda>q. \<not> under p q) (tree w)\<rparr>)"







definition runCmd ::
  "harness_env \<Rightarrow> world \<Rightarrow> string \<Rightarrow> bool \<Rightarrow> string list \<Rightarrow> error option \<times> world" where
  "runCmd E w p verbose as =
     (case runProgram E (clock w) p as of
        Some err \<Rightarrow> (Some err, tick (emit [Exec p as] w))
      | None \<Rightarrow> (None, tick (emit [Exec p as] w)))"

definition gethBin :: "string \<Rightarrow> string" where
  "gethBin root = root @ ''/build/bin/geth''"

definition maybePrepend :: "bool \<Rightarrow> string list \<Rightarrow> string list \<Rightarrow> string list" where
  "maybePrepend shouldAdd options maybe = (if shouldAdd then maybe @ options else options)"


definition init_options :: "gethClient \<Rightarrow> string list" where
  "init_options g =
     maybePrepend (FakePow (args g))
       [''--datadir='' @ DataDir (args g), ''--verbosity='' @ itoa (LogLevel (args g)),
        ''init'', GenesisPath (args g)]
       [''--fakepow'']"

definition import_options :: "gethClient \<Rightarrow> string list" where
  "import_options g =
     maybePrepend (FakePow (args g))
       [''--datadir='' @ DataDir (args g), ''--verbosity='' @ itoa (LogLevel (args g)),
        ''import'', ChainPath (args g)]
       [''--fakepow'']"

definition Init :: "harness_env \<Rightarrow> world \<Rightarrow> gethClient \<Rightarrow> bool \<Rightarrow> error option \<times> world" where
  "Init E w g verbose =
     (case runCmd E w (gethBin (path g)) verbose (init_options g) of
        (Some err, w1) \<Rightarrow> (Some err, w1)
      | (None, w1) \<Rightarrow>
          (case runCmd E w1 (gethBin (path g)) verbose (import_options g) of
             (Some err, w2) \<Rightarrow> (Some err, w2)
           | (None, w2) \<Rightarrow> (None, w2)))"



definition HttpAddr :: "gethClient \<Rightarrow> string" where
  "HttpAddr g = ''http://'' @ HOST @ '':'' @ PORT"



text \<open>
  \<^verbatim>\<open>Running\<close>: the loop tests the context and otherwise dials and asks for the block
  number, again and again. Nothing bounds the number of rounds, so the function is partial:
  \<open>None\<close> is a poll that never returns.
\<close>

partial_function (option) Running ::
  "harness_env \<Rightarrow> gethClient \<Rightarrow> world \<Rightarrow> (bool \<times> world) option" where
  "Running E g w =
     (if ctxDone E (clock w) then Some (False, tick w)
      else (case DialContext E (HttpAddr g) of
              Some err \<Rightarrow> Running E g (tick (emit [Dial (HttpAddr g) (Some err)] w))
            | None \<Rightarrow>
                (case BlockNumber E (clock w) of
                   Inr n \<Rightarrow>
                     Some (True, tick (emit [Dial (HttpAddr g) None, RpcBlockNumber (Inr n)] w))
                 | Inl err \<Rightarrow>
                     Running E g
                       (tick (emit [Dial (HttpAddr g) None, RpcBlockNumber (Inl err)] w)))))"

declare Running.simps [code]


section \<open>The verifier built on the harness\<close>




section \<open>The in-process verifiers\<close>












subsection \<open>Stand-in answers for concrete runs\<close>

definition fixture_env :: harness_env where
  "fixture_env =
     \<lparr>runProgram = (\<lambda>t p as. None),
      startProgram = (\<lambda>t p as. Inr 4242),
      osGetwd = None,
      DialContext = (\<lambda>addr. None),
      BlockNumber = (\<lambda>t. if t < 5 then Inl (External ''connection refused'') else Inr 1),
      ctxDone = (\<lambda>t. t \<ge> 9)\<rparr>"

definition fixture_args :: ClientArgs where
  "fixture_args =
     \<lparr>FakePow = True, LogLevel = Info, DataDir = ''datadir'',
      GenesisPath = ''genesis.json'', ChainPath = ''chain.rlp''\<rparr>"

definition fixture_client :: gethClient where
  "fixture_client = \<lparr>cmd = None, path = ''go-ethereum'', args = fixture_args\<rparr>"

definition fixture_world :: world where
  "fixture_world =
     \<lparr>clock = 0, cwd = ''.'', tree = [''go-ethereum'', ''datadir'', ''datadir/geth''],
      running = [], trace = []\<rparr>"

definition fixture_env_init_fails :: harness_env where
  "fixture_env_init_fails =
     fixture_env\<lparr>runProgram := (\<lambda>t p as. if ''init'' \<in> set as
                                            then Some (External ''exit status 1'') else None)\<rparr>"

definition fixture_env_import_fails :: harness_env where
  "fixture_env_import_fails =
     fixture_env\<lparr>runProgram := (\<lambda>t p as. if ''import'' \<in> set as
                                            then Some (External ''exit status 1'') else None)\<rparr>"




section \<open>Log levels: accepted strings\<close>

lemmas LogLevel_defs = None_level_def Err_def Warn_def Info_def Debug_def Trace_def

text \<open>
  C10. \<^verbatim>\<open>ParseLogLevel\<close> accepts exactly the six strings "none", "error", "warn",
  "info", "debug" and "Trace" (capital T), mapping them to the levels 0 .. 5 in that order;
  every other string, lowercase "trace" included, yields the error
  "unknown log level: <s>".
\<close>

theorem ParseLogLevel_exact:
  "ParseLogLevel ''none'' = Inr 0 \<and> ParseLogLevel ''error'' = Inr 1 \<and>
   ParseLogLevel ''warn'' = Inr 2 \<and> ParseLogLevel ''info'' = Inr 3 \<and>
   ParseLogLevel ''debug'' = Inr 4 \<and> ParseLogLevel ''Trace'' = Inr 5 \<and>
   [None_level, Err, Warn, Info, Debug, Trace] = [0, 1, 2, 3, 4, 5] \<and>
   ParseLogLevel ''trace'' = Inl (Errorf ''unknown log level: %s'' [ArgStr ''trace'']) \<and>
   (\<forall>s. s \<notin> {''none'', ''error'', ''warn'', ''info'', ''debug'', ''Trace''} \<longrightarrow>
        ParseLogLevel s = Inl (Errorf ''unknown log level: %s'' [ArgStr s])) \<and>
   (\<forall>s l. ParseLogLevel s = Inr l \<longrightarrow>
        (s, l) \<in> {(''none'', 0), (''error'', 1), (''warn'', 2), (''info'', 3),
                   (''debug'', 4), (''Trace'', 5)})"
  by (simp add: ParseLogLevel_def LogLevel_defs)

theorem ParseLogLevel_exact_witness:
  "''verbose'' \<notin> {''none'', ''error'', ''warn'', ''info'', ''debug'', ''Trace''} \<and>
   ParseLogLevel ''verbose'' = Inl (Errorf ''unknown log level: %s'' [ArgStr ''verbose'']) \<and>
   ParseLogLevel ''Trace'' = Inr 5 \<and>
   (''Trace'', 5::int) \<in> {(''none'', 0), (''error'', 1), (''warn'', 2), (''info'', 3),
                   (''debug'', 4), (''Trace'', 5)}"
  using ParseLogLevel_exact by simp

section \<open>The decoding loop\<close>

lemma blocksFromFile_loop_Inr:
  "blocksFromFile_loop i items acc = Inr bs \<Longrightarrow>
     \<exists>ds. items = map Inr ds \<and> bs = acc @ ds \<and>
          (\<forall>j < length ds. NumberU64 (ds ! j) = i + of_nat (j + 1))"
proof (induction i items acc rule: blocksFromFile_loop.induct)
  case (1 i blocks)
  then show ?case by simp
next
  case (2 i err rest blocks)
  then show ?case by simp
next
  case (3 i b rest blocks)
  from "3.prems" have nb: "NumberU64 b = i + 1"
    and rec: "blocksFromFile_loop (i + 1) rest (blocks @ [b]) = Inr bs"
    by (auto split: if_splits)
  from "3.IH" nb rec obtain ds where ds: "rest = map Inr ds" "bs = (blocks @ [b]) @ ds"
    "\<forall>j < length ds. NumberU64 (ds ! j) = i + 1 + of_nat (j + 1)"
    by auto
  have "\<forall>j < length (b # ds). NumberU64 ((b # ds) ! j) = i + of_nat (j + 1)"
  proof (intro allI impI)
    fix j assume "j < length (b # ds)"
    then show "NumberU64 ((b # ds) ! j) = i + of_nat (j + 1)"
      using nb ds(3) by (cases j) (auto simp: algebra_simps)
  qed
  with ds show ?case by (intro exI[of _ "b # ds"]) simp
qed

lemma blocksFromFile_loop_numbered:
  "(\<forall>j < length ds. NumberU64 (ds ! j) = i + of_nat (j + 1)) \<Longrightarrow>
     blocksFromFile_loop i (map Inr ds) acc = Inr (acc @ ds)"
proof (induction ds arbitrary: i acc)
  case Nil
  then show ?case by simp
next
  case (Cons b ds)
  from Cons.prems have nb: "NumberU64 b = i + 1" by force
  have "\<forall>j < length ds. NumberU64 (ds ! j) = i + 1 + of_nat (j + 1)"
  proof (intro allI impI)
    fix j assume "j < length ds"
    then have "NumberU64 ((b # ds) ! Suc j) = i + of_nat (Suc j + 1)"
      using Cons.prems by (metis Suc_less_eq length_Cons)
    then show "NumberU64 (ds ! j) = i + 1 + of_nat (j + 1)" by (simp add: algebra_simps)
  qed
  from Cons.IH[OF this] nb show ?case by simp
qed

lemma blocksFromFile_loop_first:
  "k < length items \<Longrightarrow>
   (\<forall>j < k. \<exists>b. items ! j = Inr b \<and> NumberU64 b = i + of_nat (j + 1)) \<Longrightarrow>
   blocksFromFile_loop i items acc =
     (case items ! k of
        Inl err \<Rightarrow> Inl (Errorf ''at block index %d: %v'' [ArgInt (sint (i + of_nat k)), ArgErr err])
      | Inr b \<Rightarrow>
          if NumberU64 b \<noteq> i + of_nat (k + 1)
          then Inl (Errorf ''block at index %d has wrong number %d''
                      [ArgInt (sint (i + of_nat k)), ArgU64 (NumberU64 b)])
          else blocksFromFile_loop (i + of_nat (k + 1)) (drop (Suc k) items) (acc @ map projr (take (Suc k) items)))"
proof (induction k arbitrary: i items acc)
  case 0
  then show ?case by (cases items; cases "hd items") (auto)
next
  case (Suc k)
  from Suc.prems obtain x rest where items: "items = x # rest" by (cases items) auto
  from Suc.prems(2)[rule_format, of 0] items obtain b where b: "x = Inr b" "NumberU64 b = i + 1"
    by auto
  have k: "k < length rest" using Suc.prems items by simp
  have pre: "\<forall>j < k. \<exists>b. rest ! j = Inr b \<and> NumberU64 b = i + 1 + of_nat (j + 1)"
  proof (intro allI impI)
    fix j assume "j < k"
    then have "\<exists>b. items ! Suc j = Inr b \<and> NumberU64 b = i + of_nat (Suc j + 1)"
      using Suc.prems(2) by (meson Suc_less_eq)
    then show "\<exists>b. rest ! j = Inr b \<and> NumberU64 b = i + 1 + of_nat (j + 1)"
      using items by (simp add: algebra_simps)
  qed
  show ?case
    using Suc.IH[OF k pre, of "acc @ [b]"] items b
    by (simp add: algebra_simps split: sum.splits)
qed

lemma sint_of_nat_64: "k < 2 ^ 63 \<Longrightarrow> sint (of_nat k :: 64 word) = int k"
  by (simp add: signed_of_nat signed_take_bit_int_eq_self)

section \<open>The chain fixture loader: results\<close>

lemma blocksFromFile_chainStream:
  "blocksFromFile L chainfile gblock =
     (case chainStream L chainfile of
        Inl err \<Rightarrow> Inl err
      | Inr items \<Rightarrow> blocksFromFile_loop 0 items [gblock])"
  by (simp add: blocksFromFile_def chainStream_def split: sum.splits)

lemma blocksFromFile_Inr:
  assumes "blocksFromFile L chainfile gblock = Inr bs"
  shows "\<exists>ds. chainStream L chainfile = Inr (map Inr ds) \<and> bs = gblock # ds \<and>
              (\<forall>j < length ds. NumberU64 (ds ! j) = of_nat (j + 1))"
proof -
  from assms obtain items where st: "chainStream L chainfile = Inr items"
    and lp: "blocksFromFile_loop 0 items [gblock] = Inr bs"
    by (auto simp: blocksFromFile_chainStream split: sum.splits)
  from blocksFromFile_loop_Inr[OF lp] st show ?thesis by auto
qed

lemma loadChain_Inr:
  assumes "loadChain L chainfile genesisFile = Inr c"
  shows "\<exists>gen. loadGenesis L genesisFile = Inr gen \<and>
           blocksFromFile L chainfile (ToBlock L gen) = Inr (blocks c) \<and>
           genesis c = gen \<and> chainConfig c = Config gen"
  using assms by (auto simp: loadChain_def split: sum.splits)

lemma blocksFromFile_first:
  assumes "chainStream L chainfile = Inr items" "i < length items"
    and "\<forall>j < i. \<exists>b. items ! j = Inr b \<and> NumberU64 b = of_nat (j + 1)"
  shows "blocksFromFile L chainfile gblock =
     (case items ! i of
        Inl err \<Rightarrow> Inl (Errorf ''at block index %d: %v''
                          [ArgInt (sint (of_nat i :: 64 word)), ArgErr err])
      | Inr b \<Rightarrow>
          if NumberU64 b \<noteq> of_nat (i + 1)
          then Inl (Errorf ''block at index %d has wrong number %d''
                      [ArgInt (sint (of_nat i :: 64 word)), ArgU64 (NumberU64 b)])
          else blocksFromFile_loop (of_nat (i + 1)) (drop (Suc i) items)
                 ([gblock] @ map projr (take (Suc i) items)))"
proof -
  have "\<forall>j < i. \<exists>b. items ! j = Inr b \<and> NumberU64 b = 0 + of_nat (j + 1)"
    using assms(3) by simp
  from blocksFromFile_loop_first[OF assms(2) this, of "[gblock]", unfolded add_0] assms(1)
  show ?thesis by (simp add: blocksFromFile_chainStream)
qed



subsection \<open>The stand-in library, evaluated\<close>

lemma fixture_streams:
  "chainStream fixture_lib ''chain.rlp'' = Inr [Inr (fixture_block 1), Inr (fixture_block 2)]"
  "chainStream fixture_lib ''gap.rlp'' =
     Inr [Inr (fixture_block 1), Inr (fixture_block 3), Inr (fixture_block 2)]"
  "chainStream fixture_lib ''torn.rlp'' =
     Inr [Inr (fixture_block 1), Inl (External ''rlp: expected List''), Inr (fixture_block 3)]"
  "chainStream fixture_lib ''chain.rlp.gz'' = Inr [Inr (fixture_block 1), Inr (fixture_block 2)]"
  "chainStream fixture_lib ''plain.gz'' = Inl (External ''gzip: invalid header'')"
  by (simp_all add: chainStream_def fixture_lib_def HasSuffix_def)

lemma fixture_numbers:
  "NumberU64 (fixture_block 1) = 1" "NumberU64 (fixture_block 2) = 2"
  "NumberU64 (fixture_block 3) = 3"
  by (simp_all add: fixture_block_def)


lemma fixture_blocksFromFile:
  "blocksFromFile fixture_lib ''chain.rlp'' gb = Inr [gb, fixture_block 1, fixture_block 2]"
  "blocksFromFile fixture_lib ''chain.rlp.gz'' gb = Inr [gb, fixture_block 1, fixture_block 2]"
  "blocksFromFile fixture_lib ''plain.gz'' gb = Inl (External ''gzip: invalid header'')"
  by (simp_all add: blocksFromFile_chainStream fixture_streams fixture_numbers)

lemma fixture_loadGenesis:
  "loadGenesis fixture_lib ''genesis.json'' = Inr fixture_genesis"
  "loadGenesis fixture_lib ''missing.json'' = Inl (External ''open: no such file or directory'')"
  by (simp_all add: loadGenesis_def fixture_lib_def)


text \<open>
  C6. On every successful load the chain's first element is the genesis block, the value
  of \<^verbatim>\<open>ToBlock\<close> at the loaded genesis description; the remaining elements are the
  blocks decoded from the stream, in stream order; and the chain is one longer than the
  list of decoded blocks.
\<close>

theorem loadChain_genesis_first:
  assumes "loadChain L chainfile genesisFile = Inr c"
  shows "\<exists>gen ds. loadGenesis L genesisFile = Inr gen \<and>
           chainStream L chainfile = Inr (map Inr ds) \<and>
           genesis c = gen \<and> chainConfig c = Config gen \<and>
           blocks c = ToBlock L gen # ds \<and>
           hd (blocks c) = ToBlock L (genesis c) \<and> tl (blocks c) = ds \<and>
           length (blocks c) = length ds + 1"
proof -
  from loadChain_Inr[OF assms] obtain gen where
    gen: "loadGenesis L genesisFile = Inr gen" "genesis c = gen" "chainConfig c = Config gen"
    and bl: "blocksFromFile L chainfile (ToBlock L gen) = Inr (blocks c)"
    by blast
  from blocksFromFile_Inr[OF bl] obtain ds where
    "chainStream L chainfile = Inr (map Inr ds)" "blocks c = ToBlock L gen # ds"
    by blast
  with gen show ?thesis by simp
qed

theorem loadChain_genesis_first_witness:
  "loadChain fixture_lib ''chain.rlp'' ''genesis.json'' =
     Inr \<lparr>genesis = fixture_genesis,
          blocks = [ToBlock fixture_lib fixture_genesis, fixture_block 1, fixture_block 2],
          chainConfig = Config fixture_genesis\<rparr> \<and>
   (\<exists>ds. chainStream fixture_lib ''chain.rlp'' = Inr (map Inr ds) \<and> length ds = 2 \<and>
         length [ToBlock fixture_lib fixture_genesis, fixture_block 1, fixture_block 2]
           = length ds + 1)"
proof -
  have ld: "loadChain fixture_lib ''chain.rlp'' ''genesis.json'' =
     Inr \<lparr>genesis = fixture_genesis,
          blocks = [ToBlock fixture_lib fixture_genesis, fixture_block 1, fixture_block 2],
          chainConfig = Config fixture_genesis\<rparr>"
    by (simp add: loadChain_def fixture_loadGenesis fixture_blocksFromFile)
  from loadChain_genesis_first[OF ld] obtain ds where
    ds: "chainStream fixture_lib ''chain.rlp'' = Inr (map Inr ds)"
      "length (blocks \<lparr>genesis = fixture_genesis,
          blocks = [ToBlock fixture_lib fixture_genesis, fixture_block 1, fixture_block 2],
          chainConfig = Config fixture_genesis\<rparr>) = length ds + 1"
    by blast
  from ds(2) have "length ds = 2" by simp
  with ds(1) ld show ?thesis by auto
qed

text \<open>
  C7. A decoding failure before the end of the stream is fatal: reached at position \<open>i\<close>
  (everything before it decoded and numbered correctly) it gives the error
  "at block index i: cause", and a stream that holds a decoding failure anywhere never
  loads. Whatever fails while loading (reading or parsing the genesis file, opening,
  unpacking, decoding or checking the chain file), \<^verbatim>\<open>loadChain\<close> returns the error and
  no chain; a chain it returns holds every block of a stream that decoded to its end.
\<close>

theorem decode_failure_fatal:
  "(chainStream L chainfile = Inr items \<and> i < length items \<and>
    (\<forall>j < i. \<exists>b. items ! j = Inr b \<and> NumberU64 b = of_nat (j + 1)) \<and>
    items ! i = Inl cause \<longrightarrow>
      blocksFromFile L chainfile gblock =
        Inl (Errorf ''at block index %d: %v''
               [ArgInt (sint (of_nat i :: 64 word)), ArgErr cause]) \<and>
      (i < 2 ^ 63 \<longrightarrow> sint (of_nat i :: 64 word) = int i)) \<and>
   (chainStream L chainfile = Inr items \<and> Inl cause \<in> set items \<longrightarrow>
      (\<exists>err. blocksFromFile L chainfile gblock = Inl err)) \<and>
   (loadGenesis L genesisFile = Inl err \<longrightarrow> loadChain L chainfile genesisFile = Inl err) \<and>
   (loadGenesis L genesisFile = Inr gen \<and>
    blocksFromFile L chainfile (ToBlock L gen) = Inl err \<longrightarrow>
      loadChain L chainfile genesisFile = Inl err) \<and>
   (loadChain L chainfile genesisFile = Inr c \<longrightarrow>
      (\<exists>gen ds. loadGenesis L genesisFile = Inr gen \<and>
         chainStream L chainfile = Inr (map Inr ds) \<and> blocks c = ToBlock L gen # ds))"
proof (intro conjI impI)
  assume a: "chainStream L chainfile = Inr items \<and> i < length items \<and>
    (\<forall>j < i. \<exists>b. items ! j = Inr b \<and> NumberU64 b = of_nat (j + 1)) \<and>
    items ! i = Inl cause"
  show "blocksFromFile L chainfile gblock =
        Inl (Errorf ''at block index %d: %v''
               [ArgInt (sint (of_nat i :: 64 word)), ArgErr cause])"
    using blocksFromFile_first[of L chainfile items i gblock] a by simp
next
  assume "i < 2 ^ 63"
  then show "sint (of_nat i :: 64 word) = int i" by (rule sint_of_nat_64)
next
  assume a: "chainStream L chainfile = Inr items \<and> Inl cause \<in> set items"
  show "\<exists>err. blocksFromFile L chainfile gblock = Inl err"
  proof (cases "blocksFromFile L chainfile gblock")
    case (Inl e)
    then show ?thesis by blast
  next
    case (Inr bs)
    from blocksFromFile_Inr[OF Inr] a have "Inl cause \<in> Inr ` set (tl bs)" by auto
    then show ?thesis by blast
  qed
next
  assume "loadGenesis L genesisFile = Inl err"
  then show "loadChain L chainfile genesisFile = Inl err" by (simp add: loadChain_def)
next
  assume "loadGenesis L genesisFile = Inr gen \<and>
    blocksFromFile L chainfile (ToBlock L gen) = Inl err"
  then show "loadChain L chainfile genesisFile = Inl err" by (simp add: loadChain_def)
next
  assume a: "loadChain L chainfile genesisFile = Inr c"
  from loadChain_Inr[OF a] obtain gen where
    gen: "loadGenesis L genesisFile = Inr gen"
    and bl: "blocksFromFile L chainfile (ToBlock L gen) = Inr (blocks c)"
    by blast
  from blocksFromFile_Inr[OF bl] gen
  show "\<exists>gen ds. loadGenesis L genesisFile = Inr gen \<and>
         chainStream L chainfile = Inr (map Inr ds) \<and> blocks c = ToBlock L gen # ds"
    by blast
qed

theorem decode_failure_fatal_witness:
  "chainStream fixture_lib ''torn.rlp'' =
     Inr [Inr (fixture_block 1), Inl (External ''rlp: expected List''), Inr (fixture_block 3)] \<and>
   blocksFromFile fixture_lib ''torn.rlp'' (fixture_block 0) =
     Inl (Errorf ''at block index %d: %v'' [ArgInt 1, ArgErr (External ''rlp: expected List'')]) \<and>
   loadGenesis fixture_lib ''genesis.json'' = Inr fixture_genesis \<and>
   loadChain fixture_lib ''torn.rlp'' ''genesis.json'' =
     Inl (Errorf ''at block index %d: %v'' [ArgInt 1, ArgErr (External ''rlp: expected List'')]) \<and>
   loadGenesis fixture_lib ''missing.json'' = Inl (External ''open: no such file or directory'') \<and>
   loadChain fixture_lib ''chain.rlp'' ''missing.json'' =
     Inl (External ''open: no such file or directory'')"
proof -
  let ?items = "[Inr (fixture_block 1), Inl (External ''rlp: expected List''), Inr (fixture_block 3)]"
  let ?e = "Errorf ''at block index %d: %v'' [ArgInt 1, ArgErr (External ''rlp: expected List'')]"
  have pre: "chainStream fixture_lib ''torn.rlp'' = Inr ?items \<and> (1::nat) < length ?items \<and>
    (\<forall>j < (1::nat). \<exists>b. ?items ! j = Inr b \<and> NumberU64 b = of_nat (j + 1)) \<and>
    ?items ! 1 = Inl (External ''rlp: expected List'')"
    by (simp add: fixture_streams fixture_numbers)
  have g: "loadGenesis fixture_lib ''genesis.json'' = Inr fixture_genesis"
    by (rule fixture_loadGenesis)
  have m: "loadGenesis fixture_lib ''missing.json'' = Inl (External ''open: no such file or directory'')"
    by (rule fixture_loadGenesis)
  have b: "blocksFromFile fixture_lib ''torn.rlp'' gb = Inl ?e" for gb
    using decode_failure_fatal[of fixture_lib "''torn.rlp''" ?items 1 "External ''rlp: expected List''" gb] pre
    by simp
  have "loadChain fixture_lib ''torn.rlp'' ''genesis.json'' = Inl ?e"
    using decode_failure_fatal[of fixture_lib "''torn.rlp''" _ _ _ _ "''genesis.json''" ?e fixture_genesis] g b
    by blast
  moreover have "loadChain fixture_lib ''chain.rlp'' ''missing.json'' =
     Inl (External ''open: no such file or directory'')"
    using decode_failure_fatal[of fixture_lib _ _ _ _ _ "''missing.json''" "External ''open: no such file or directory''"] m
    by blast
  ultimately show ?thesis using pre g m b by simp
qed

text \<open>
  C8, as stated, fails: the loader unpacks by file name alone. Two files whose contents are
  related by compression, the packed one named \<^verbatim>\<open>chain.rlp.gz\<close>, load differently when
  the unpacked contents sit in a file whose name ends in \<^verbatim>\<open>.gz\<close> too: the loader then
  takes them for a packed stream and fails on the header.
\<close>

theorem compression_by_name_counterexample:
  "osOpen fixture_lib ''chain.rlp.gz'' = Inr (Reader [0x1f, 0x8b, 1, 2] None) \<and>
   osOpen fixture_lib ''plain.gz'' = Inr (Reader [1, 2] None) \<and>
   gzipNewReader fixture_lib (Reader [0x1f, 0x8b, 1, 2] None) = Inr (Reader [1, 2] None) \<and>
   HasSuffix ''chain.rlp.gz'' ''.gz'' \<and>
   blocksFromFile fixture_lib ''chain.rlp.gz'' (fixture_block 0) =
     Inr [fixture_block 0, fixture_block 1, fixture_block 2] \<and>
   blocksFromFile fixture_lib ''plain.gz'' (fixture_block 0) =
     Inl (External ''gzip: invalid header'')"
proof -
  have "osOpen fixture_lib ''chain.rlp.gz'' = Inr (Reader [0x1f, 0x8b, 1, 2] None)"
    "osOpen fixture_lib ''plain.gz'' = Inr (Reader [1, 2] None)"
    "gzipNewReader fixture_lib (Reader [0x1f, 0x8b, 1, 2] None) = Inr (Reader [1, 2] None)"
    "HasSuffix ''chain.rlp.gz'' ''.gz''"
    by (simp_all add: fixture_lib_def HasSuffix_def)
  then show ?thesis by (simp add: fixture_blocksFromFile)
qed

text \<open>
  C8, amended. For every pair of chain files whose contents are related by gzip compression
  (unpacking the compressed file's reader gives the reader of the other file: the same
  bytes with the same end), where the compressed one's name ends in \<^verbatim>\<open>.gz\<close> and the
  uncompressed one's name does not, loading both yields the same result: the same blocks on
  success and the same error on failure, for \<^verbatim>\<open>blocksFromFile\<close> and for \<^verbatim>\<open>loadChain\<close>.
\<close>

theorem compression_transparent:
  assumes "osOpen L packed = Inr rc" and "osOpen L plain = Inr rp"
    and "gzipNewReader L rc = Inr rp"
    and "HasSuffix packed ''.gz''" and "\<not> HasSuffix plain ''.gz''"
  shows "blocksFromFile L packed gblock = blocksFromFile L plain gblock \<and>
         loadChain L packed genesisFile = loadChain L plain genesisFile"
proof -
  have "blocksFromFile L packed g = blocksFromFile L plain g" for g
    using assms by (simp add: blocksFromFile_def)
  then show ?thesis by (simp add: loadChain_def cong: sum.case_cong)
qed

theorem compression_transparent_witness:
  "osOpen fixture_lib ''chain.rlp.gz'' = Inr (Reader [0x1f, 0x8b, 1, 2] None) \<and>
   osOpen fixture_lib ''chain.rlp'' = Inr (Reader [1, 2] None) \<and>
   gzipNewReader fixture_lib (Reader [0x1f, 0x8b, 1, 2] None) = Inr (Reader [1, 2] None) \<and>
   HasSuffix ''chain.rlp.gz'' ''.gz'' \<and> \<not> HasSuffix ''chain.rlp'' ''.gz'' \<and>
   blocksFromFile fixture_lib ''chain.rlp.gz'' (fixture_block 0) =
     blocksFromFile fixture_lib ''chain.rlp'' (fixture_block 0) \<and>
   loadChain fixture_lib ''chain.rlp.gz'' ''genesis.json'' =
     loadChain fixture_lib ''chain.rlp'' ''genesis.json''"
proof -
  have h: "osOpen fixture_lib ''chain.rlp.gz'' = Inr (Reader [0x1f, 0x8b, 1, 2] None)"
    "osOpen fixture_lib ''chain.rlp'' = Inr (Reader [1, 2] None)"
    "gzipNewReader fixture_lib (Reader [0x1f, 0x8b, 1, 2] None) = Inr (Reader [1, 2] None)"
    "HasSuffix ''chain.rlp.gz'' ''.gz''" "\<not> HasSuffix ''chain.rlp'' ''.gz''"
    by (simp_all add: fixture_lib_def HasSuffix_def)
  from compression_transparent[OF h] h show ?thesis by simp
qed

section \<open>Events, traces and the client's state\<close>

lemma trace_tick_emit [simp]:
  "trace (tick w) = trace w" "trace (emit es w) = trace w @ es"
  "clock (tick w) = Suc (clock w)" "clock (emit es w) = clock w"
  "tree (tick w) = tree w" "tree (emit es w) = tree w"
  "running (tick w) = running w" "running (emit es w) = running w"
  by (simp_all add: tick_def emit_def)

lemma runCmd_eq:
  "runCmd E w p verbose as = (runProgram E (clock w) p as, tick (emit [Exec p as] w))"
  by (simp add: runCmd_def split: option.splits)







text \<open>
  The poll returns once the context is done at some step it reaches, and it returns false
  only from a test that found the context done.
\<close>

lemma Running_returns:
  "ctxDone E d \<Longrightarrow> clock w \<le> d \<Longrightarrow> \<exists>y. Running E g w = Some y"
proof (induction "d - clock w" arbitrary: w)
  case 0
  then have "ctxDone E (clock w)" by simp
  then show ?case by (subst Running.simps) auto
next
  case (Suc k)
  show ?case
  proof (cases "ctxDone E (clock w)")
    case True
    then show ?thesis by (subst Running.simps) auto
  next
    case False
    have step: "\<exists>y. Running E g (tick (emit es w)) = Some y" for es
      using Suc.hyps(1)[of "tick (emit es w)"] Suc.hyps(2) Suc.prems by simp
    show ?thesis
      using False step
      by (subst Running.simps) (auto split: option.splits sum.splits)
  qed
qed

lemma Running_False_only_when_done:
  assumes "Running E g w = Some y"
  shows "\<not> fst y \<longrightarrow> ctxDone E (clock (snd y) - 1) \<and> clock w < clock (snd y)"
  using assms
proof (induction rule: Running.raw_induct[rotated 1, consumes 1])
  case (1 R E g w y)
  show ?case
  proof (cases "ctxDone E (clock w)")
    case True
    with 1(2) show ?thesis by auto
  next
    case nd: False
    show ?thesis
    proof (cases "DialContext E (HttpAddr g)")
      case (Some err)
      with nd 1(2) have "R E g (tick (emit [Dial (HttpAddr g) (Some err)] w)) = Some y" by simp
      from 1(1)[OF this] show ?thesis by auto
    next
      case None
      show ?thesis
      proof (cases "BlockNumber E (clock w)")
        case (Inl err)
        with nd None 1(2)
        have "R E g (tick (emit [Dial (HttpAddr g) None, RpcBlockNumber (Inl err)] w)) = Some y"
          by simp
        from 1(1)[OF this] show ?thesis by auto
      next
        case (Inr n)
        with nd None 1(2) show ?thesis by auto
      qed
    qed
  qed
qed

lemma RemoveAll_trace [simp]: "trace (snd (RemoveAll w p)) = trace w"
  by (simp add: RemoveAll_def)














section \<open>Initialization\<close>

text \<open>
  C9. \<^verbatim>\<open>Init\<close> runs the genesis import (\<^verbatim>\<open>geth init <genesis>\<close>) first and the chain
  import (\<^verbatim>\<open>geth import <chain>\<close>) second. When the genesis import fails, \<^verbatim>\<open>Init\<close>
  returns that command's error and the chain import is never executed; when it succeeds,
  \<^verbatim>\<open>Init\<close> returns exactly what the chain import returned, its error included.
\<close>

theorem Init_genesis_then_chain:
  "(runProgram E (clock w) (gethBin (path g)) (init_options g) = Some err \<longrightarrow>
      fst (Init E w g verbose) = Some err \<and>
      trace (snd (Init E w g verbose)) = trace w @ [Exec (gethBin (path g)) (init_options g)]) \<and>
   (runProgram E (clock w) (gethBin (path g)) (init_options g) = None \<longrightarrow>
      fst (Init E w g verbose) =
        runProgram E (Suc (clock w)) (gethBin (path g)) (import_options g) \<and>
      trace (snd (Init E w g verbose)) =
        trace w @ [Exec (gethBin (path g)) (init_options g),
                   Exec (gethBin (path g)) (import_options g)]) \<and>
   init_options g =
     (if FakePow (args g) then [''--fakepow''] else []) @
     [''--datadir='' @ DataDir (args g), ''--verbosity='' @ itoa (LogLevel (args g)),
      ''init'', GenesisPath (args g)] \<and>
   import_options g =
     (if FakePow (args g) then [''--fakepow''] else []) @
     [''--datadir='' @ DataDir (args g), ''--verbosity='' @ itoa (LogLevel (args g)),
      ''import'', ChainPath (args g)]"
  by (simp add: Init_def runCmd_eq init_options_def import_options_def maybePrepend_def
      split: option.splits)

theorem Init_genesis_then_chain_witness:
  "runProgram fixture_env_init_fails (clock fixture_world) (gethBin (path fixture_client))
     (init_options fixture_client) = Some (External ''exit status 1'') \<and>
   Init fixture_env_init_fails fixture_world fixture_client False =
     (Some (External ''exit status 1''),
      fixture_world\<lparr>clock := 1,
        trace := [Exec ''go-ethereum/build/bin/geth''
                   [''--fakepow'', ''--datadir=datadir'', ''--verbosity=3'', ''init'',
                    ''genesis.json'']]\<rparr>) \<and>
   runProgram fixture_env_import_fails (clock fixture_world) (gethBin (path fixture_client))
     (init_options fixture_client) = None \<and>
   fst (Init fixture_env_import_fails fixture_world fixture_client False) =
     Some (External ''exit status 1'') \<and>
   trace (snd (Init fixture_env_import_fails fixture_world fixture_client False)) =
     [Exec ''go-ethereum/build/bin/geth''
        [''--fakepow'', ''--datadir=datadir'', ''--verbosity=3'', ''init'', ''genesis.json''],
      Exec ''go-ethereum/build/bin/geth''
        [''--fakepow'', ''--datadir=datadir'', ''--verbosity=3'', ''import'', ''chain.rlp'']]"
proof -
  have a: "runProgram fixture_env_init_fails (clock fixture_world) (gethBin (path fixture_client))
     (init_options fixture_client) = Some (External ''exit status 1'')"
    by code_simp
  have b: "runProgram fixture_env_import_fails (clock fixture_world) (gethBin (path fixture_client))
     (init_options fixture_client) = None"
    by code_simp
  have c: "runProgram fixture_env_import_fails (Suc (clock fixture_world))
     (gethBin (path fixture_client)) (import_options fixture_client) =
       Some (External ''exit status 1'')"
    by code_simp
  have d: "Init fixture_env_init_fails fixture_world fixture_client False =
     (Some (External ''exit status 1''),
      fixture_world\<lparr>clock := 1,
        trace := [Exec ''go-ethereum/build/bin/geth''
                   [''--fakepow'', ''--datadir=datadir'', ''--verbosity=3'', ''init'',
                    ''genesis.json'']]\<rparr>)"
    by code_simp
  have e: "trace fixture_world = []"
    "Exec (gethBin (path fixture_client)) (init_options fixture_client) =
       Exec ''go-ethereum/build/bin/geth''
        [''--fakepow'', ''--datadir=datadir'', ''--verbosity=3'', ''init'', ''genesis.json'']"
    "Exec (gethBin (path fixture_client)) (import_options fixture_client) =
       Exec ''go-ethereum/build/bin/geth''
        [''--fakepow'', ''--datadir=datadir'', ''--verbosity=3'', ''import'', ''chain.rlp'']"
    by code_simp+
  from Init_genesis_then_chain[of fixture_env_import_fails fixture_world fixture_client
         "External ''exit status 1''" False] b c e
  have "fst (Init fixture_env_import_fails fixture_world fixture_client False) =
          Some (External ''exit status 1'') \<and>
        trace (snd (Init fixture_env_import_fails fixture_world fixture_client False)) =
     [Exec ''go-ethereum/build/bin/geth''
        [''--fakepow'', ''--datadir=datadir'', ''--verbosity=3'', ''init'', ''genesis.json''],
      Exec ''go-ethereum/build/bin/geth''
        [''--fakepow'', ''--datadir=datadir'', ''--verbosity=3'', ''import'', ''chain.rlp'']]"
    by simp
  with a b d show ?thesis by simp
qed

section \<open>Teardown\<close>




section \<open>The flag check\<close>



section \<open>A failed attach\<close>



end
